theory Spec2Isabelle
  imports Main "HOL-Library.Multiset" "HOL-Library.List_Lexorder" "HOL-Library.Char_ord"
begin

section \<open>The build pipeline of buildApplication.ts\<close>

text \<open>
  The repository's source is the orchestration in
  \<^verbatim>\<open>packages/next-on-fleek/src/buildApplication/buildApplication.ts\<close>: the function
  \<^verbatim>\<open>prepareAndBuildWorker\<close> calls, in a fixed order, the functions it imports from
  sibling modules (\<^verbatim>\<open>getVercelConfig\<close>, \<^verbatim>\<open>getVercelStaticAssets\<close>,
  \<^verbatim>\<open>processOutputDir\<close>, \<^verbatim>\<open>validateDir\<close>, \<^verbatim>\<open>processVercelFunctions\<close>,
  \<^verbatim>\<open>processVercelOutput\<close>, \<^verbatim>\<open>buildWorkerFile\<close>, \<^verbatim>\<open>buildMetadataFiles\<close>,
  \<^verbatim>\<open>printBuildSummary\<close>, \<^verbatim>\<open>writeBuildInfo\<close>). Those modules are not part of the
  sources at hand, so the embedding of \<^verbatim>\<open>prepareAndBuildWorker\<close> takes them as
  parameters (a record of functions) and records every call it makes, with its
  arguments, in a trace. \<^verbatim>\<open>buildApplication\<close> (lines 25 to 93) detects the package
  manager, runs the upstream build unless told to skip it, and then awaits
  \<^verbatim>\<open>prepareAndBuildWorker\<close>, which is the pipeline the properties below are about.
\<close>

subsection \<open>Data passed between the stages\<close>

text \<open>
  Modelled from the spec: the types \<^verbatim>\<open>VercelConfig\<close>, the static asset list,
  \<^verbatim>\<open>ProcessedVercelFunctions\<close> and the function descriptors are declared in modules
  that are not among the sources; their fields follow section 3 of the specification
  (BuildConfig, Route, StaticAsset, FunctionDescriptor, Chunk). The orchestration only
  reads \<^verbatim>\<open>collectedFunctions.prerenderedFunctions\<close> and
  \<^verbatim>\<open>collectedFunctions.edgeFunctions\<close> of them. Byte content is a \<^typ>\<open>string\<close>
  (a list of 8-bit characters); a content hash is a string as well.
\<close>

datatype RouteKind = Rewrite | Redirect | HeaderInjection | FilesystemFallback | Miss

record Route =
  kind :: RouteKind
  src :: string
  dest :: "string option"
  status :: "nat option"
  headers :: "(string \<times> string) list"
  continue :: bool

record VercelConfig =
  version :: nat
  routes :: "Route list"

record StaticAsset =
  path :: string
  contentHash :: string
  byteSize :: nat

datatype RuntimeKind = Edge | Prerendered | Unsupported

record FunctionDescriptor =
  name :: string
  runtimeKind :: RuntimeKind
  entryCode :: string
  privateUnits :: "string list"
  chunkRefs :: "string list"
  routeMatch :: string
  declaredRegions :: "string list"

record Chunk =
  chunkId :: string
  byteContent :: string
  referencedBy :: "string list"

record CollectedFunctions =
  prerenderedFunctions :: "FunctionDescriptor list"
  edgeFunctions :: "FunctionDescriptor list"

record ProcessedVercelFunctions =
  collectedFunctions :: "CollectedFunctions option"
  chunkMap :: "Chunk list"
  warnings :: "string list"

subsection \<open>Exceptions, process exit and the trace of calls\<close>

text \<open>
  A JavaScript \<^verbatim>\<open>throw\<close> (or a rejected promise) carries any value; the handler of
  \<^verbatim>\<open>prepareAndBuildWorker\<close> tests \<^verbatim>\<open>e instanceof Error\<close> and reads
  \<^verbatim>\<open>e.message\<close>. The kinds of error are those of section 7 of the specification.
\<close>

datatype ErrorKind =
  ConfigError | FunctionRuntimeUnsupported | ChunkIntegrityError | AssetCollisionError
  | AssemblyError | IOError | OtherError

datatype thrown = ErrorInstance ErrorKind string | NonErrorValue

text \<open>
  How an asynchronous computation ends: with a value, with a rejection that nobody
  caught, or with \<^verbatim>\<open>process.exit(n)\<close>, which never returns.
\<close>

datatype 'a result = Value 'a | Rejected thrown | Exited nat

text \<open>One event per call that \<^verbatim>\<open>prepareAndBuildWorker\<close> makes, with the arguments.\<close>

datatype 'pvo event =
    GetVercelConfig
  | CliError string bool
  | ProcessExit nat
  | GetVercelStaticAssets
  | ProcessOutputDir string "StaticAsset list"
  | ValidateDir string
  | CliLog string
  | ProcessVercelFunctions string string string string bool VercelConfig
  | ProcessVercelOutput VercelConfig "StaticAsset list"
      "FunctionDescriptor list option" "FunctionDescriptor list option"
  | BuildWorkerFile 'pvo string string string string "string option" bool
  | BuildMetadataFiles string "StaticAsset list"
  | PrintBuildSummary "StaticAsset list" 'pvo "ProcessedVercelFunctions option"
  | WriteBuildInfo string string "StaticAsset list" 'pvo "ProcessedVercelFunctions option"
  | CliSuccess string

text \<open>
  The imported functions. Each is called at most once per run, so its result in that
  run is a function of its arguments; \<^verbatim>\<open>Inl\<close> is a throw. The type \<^typ>\<open>'pvo\<close> is
  \<^verbatim>\<open>ProcessedVercelOutput\<close>, which the orchestration never inspects.
  \<^verbatim>\<open>resolve\<close> and \<^verbatim>\<open>join\<close> are those of Node's \<^verbatim>\<open>path\<close> module, \<^verbatim>\<open>dirname\<close>
  is \<^verbatim>\<open>__dirname\<close>.
\<close>

record 'pvo collaborators =
  getVercelConfig :: "thrown + VercelConfig"
  getVercelStaticAssets :: "thrown + StaticAsset list"
  processOutputDir :: "string \<Rightarrow> StaticAsset list \<Rightarrow> thrown + unit"
  validateDir :: "string \<Rightarrow> thrown + bool"
  processVercelFunctions ::
    "string \<Rightarrow> string \<Rightarrow> string \<Rightarrow> string \<Rightarrow> bool \<Rightarrow> VercelConfig
      \<Rightarrow> thrown + ProcessedVercelFunctions"
  processVercelOutput ::
    "VercelConfig \<Rightarrow> StaticAsset list \<Rightarrow> FunctionDescriptor list option
      \<Rightarrow> FunctionDescriptor list option \<Rightarrow> thrown + 'pvo"
  buildWorkerFile ::
    "'pvo \<Rightarrow> string \<Rightarrow> string \<Rightarrow> string \<Rightarrow> string \<Rightarrow> string option \<Rightarrow> bool
      \<Rightarrow> thrown + string"
  buildMetadataFiles :: "string \<Rightarrow> StaticAsset list \<Rightarrow> thrown + unit"
  printBuildSummary ::
    "StaticAsset list \<Rightarrow> 'pvo \<Rightarrow> ProcessedVercelFunctions option \<Rightarrow> thrown + unit"
  writeBuildInfo ::
    "string \<Rightarrow> string \<Rightarrow> StaticAsset list \<Rightarrow> 'pvo \<Rightarrow> ProcessedVercelFunctions option
      \<Rightarrow> thrown + unit"
  resolve :: "string list \<Rightarrow> string"
  join :: "string list \<Rightarrow> string"
  dirname :: string

text \<open>The options \<^verbatim>\<open>prepareAndBuildWorker\<close> picks from \<^verbatim>\<open>CliOptions\<close>.\<close>

record CliOptions =
  disableChunksDedup :: bool
  disableWorkerMinification :: bool
  customEntrypoint :: "string option"

subsection \<open>Sequencing\<close>

text \<open>
  A computation is the list of events it emitted and how it ended. \<open>andThen\<close> is the
  sequencing of \<^verbatim>\<open>await\<close>: the rest runs only after a value; a rejection or an exit
  ends the run with the events so far.
\<close>

type_synonym ('pvo, 'a) run = "'pvo event list \<times> 'a result"

definition andThen :: "('pvo, 'a) run \<Rightarrow> ('a \<Rightarrow> ('pvo, 'b) run) \<Rightarrow> ('pvo, 'b) run" where
  "andThen m f =
     (case snd m of
        Value x \<Rightarrow> (fst m @ fst (f x), snd (f x))
      | Rejected e \<Rightarrow> (fst m, Rejected e)
      | Exited n \<Rightarrow> (fst m, Exited n))"

definition call :: "'pvo event \<Rightarrow> thrown + 'a \<Rightarrow> ('pvo, 'a) run" where
  "call ev r = ([ev], case r of Inl e \<Rightarrow> Rejected e | Inr v \<Rightarrow> Value v)"

definition emit :: "'pvo event \<Rightarrow> ('pvo, unit) run" where
  "emit ev = ([ev], Value ())"

definition yield :: "'a \<Rightarrow> ('pvo, 'a) run" where
  "yield x = ([], Value x)"

subsection \<open>prepareAndBuildWorker\<close>

text \<open>
  Lines 106 to 114: \<^verbatim>\<open>getVercelConfig\<close> inside \<^verbatim>\<open>try\<close>; the handler reports the
  message of an \<^verbatim>\<open>Error\<close> with \<^verbatim>\<open>showReport: true\<close> and calls \<^verbatim>\<open>exit(1)\<close>.
\<close>

definition resolveConfig :: "'pvo collaborators \<Rightarrow> ('pvo, VercelConfig) run" where
  "resolveConfig E =
     (case getVercelConfig E of
        Inr c \<Rightarrow> ([GetVercelConfig], Value c)
      | Inl e \<Rightarrow>
          ([GetVercelConfig]
             @ (case e of ErrorInstance k msg \<Rightarrow> [CliError msg True] | NonErrorValue \<Rightarrow> [])
             @ [ProcessExit 1],
           Exited 1))"

text \<open>
  Lines 127 to 140: without a functions directory the run logs one line and
  \<^verbatim>\<open>processedFunctions\<close> stays \<^verbatim>\<open>undefined\<close>; otherwise
  \<^verbatim>\<open>processVercelFunctions\<close> is awaited.
\<close>

definition noFunctionsMessage :: string where
  "noFunctionsMessage = ''No functions detected (no functions directory generated by Vercel).''"

definition collectFunctions ::
  "'pvo collaborators \<Rightarrow> bool \<Rightarrow> string \<Rightarrow> string \<Rightarrow> string \<Rightarrow> string \<Rightarrow> bool \<Rightarrow> VercelConfig
     \<Rightarrow> ('pvo, ProcessedVercelFunctions option) run" where
  "collectFunctions E valid functionsDir outputDir workerJsDir nopDistDir dedupOff vercelConfig =
     (if \<not> valid then andThen (emit (CliLog noFunctionsMessage)) (\<lambda>_. yield None)
      else
        andThen
          (call (ProcessVercelFunctions functionsDir outputDir workerJsDir nopDistDir dedupOff
                   vercelConfig)
             (processVercelFunctions E functionsDir outputDir workerJsDir nopDistDir dedupOff
                vercelConfig))
          (\<lambda>pf. yield (Some pf)))"

text \<open>
  \<^verbatim>\<open>processedFunctions?.collectedFunctions?.prerenderedFunctions\<close> and its sibling:
  \<^verbatim>\<open>undefined\<close> as soon as one link is \<^verbatim>\<open>undefined\<close>.
\<close>

definition prerenderedOf :: "ProcessedVercelFunctions option \<Rightarrow> FunctionDescriptor list option" where
  "prerenderedOf pf =
     (case pf of None \<Rightarrow> None
      | Some p \<Rightarrow> (case collectedFunctions p of None \<Rightarrow> None
                  | Some c \<Rightarrow> Some (prerenderedFunctions c)))"

definition edgeOf :: "ProcessedVercelFunctions option \<Rightarrow> FunctionDescriptor list option" where
  "edgeOf pf =
     (case pf of None \<Rightarrow> None
      | Some p \<Rightarrow> (case collectedFunctions p of None \<Rightarrow> None
                  | Some c \<Rightarrow> Some (edgeFunctions c)))"

definition generatedMessage :: "string \<Rightarrow> string" where
  "generatedMessage p = ''Generated '' @ [CHR 0x27] @ p @ [CHR 0x27] @ ''.''"

text \<open>Lines 122 to 125: the four directories.\<close>

definition functionsDirOf :: "'pvo collaborators \<Rightarrow> string" where
  "functionsDirOf E = resolve E [''.vercel'', ''output'', ''functions'']"

definition workerJsDirOf :: "'pvo collaborators \<Rightarrow> string \<Rightarrow> string" where
  "workerJsDirOf E outputDir = join E [outputDir, ''_worker.js'']"

definition nopDistDirOf :: "'pvo collaborators \<Rightarrow> string \<Rightarrow> string" where
  "nopDistDirOf E outputDir = join E [workerJsDirOf E outputDir, ''__next-on-pages-dist__'']"

definition templatesDirOf :: "'pvo collaborators \<Rightarrow> string" where
  "templatesDirOf E = join E [dirname E, ''..'', ''templates'']"

text \<open>Lines 95 to 170, statement by statement.\<close>

definition prepareAndBuildWorker ::
  "'pvo collaborators \<Rightarrow> string \<Rightarrow> CliOptions \<Rightarrow> ('pvo, unit) run" where
  "prepareAndBuildWorker E outputDir opts =
     andThen (resolveConfig E) (\<lambda>vercelConfig.
     andThen (call GetVercelStaticAssets (getVercelStaticAssets E)) (\<lambda>staticAssets.
     andThen (call (ProcessOutputDir outputDir staticAssets)
                (processOutputDir E outputDir staticAssets)) (\<lambda>_.
     let functionsDir = functionsDirOf E;
         workerJsDir = workerJsDirOf E outputDir;
         nopDistDir = nopDistDirOf E outputDir;
         templatesDir = templatesDirOf E
     in
     andThen (call (ValidateDir functionsDir) (validateDir E functionsDir)) (\<lambda>valid.
     andThen (collectFunctions E valid functionsDir outputDir workerJsDir nopDistDir
                (disableChunksDedup opts) vercelConfig) (\<lambda>processedFunctions.
     andThen (call (ProcessVercelOutput vercelConfig staticAssets
                      (prerenderedOf processedFunctions) (edgeOf processedFunctions))
                (processVercelOutput E vercelConfig staticAssets
                      (prerenderedOf processedFunctions) (edgeOf processedFunctions)))
       (\<lambda>processedVercelOutput.
     andThen (call (BuildWorkerFile processedVercelOutput outputDir workerJsDir nopDistDir
                      templatesDir (customEntrypoint opts) (\<not> disableWorkerMinification opts))
                (buildWorkerFile E processedVercelOutput outputDir workerJsDir nopDistDir
                      templatesDir (customEntrypoint opts) (\<not> disableWorkerMinification opts)))
       (\<lambda>outputtedWorkerPath.
     andThen (call (BuildMetadataFiles outputDir staticAssets)
                (buildMetadataFiles E outputDir staticAssets)) (\<lambda>_.
     andThen (call (PrintBuildSummary staticAssets processedVercelOutput processedFunctions)
                (printBuildSummary E staticAssets processedVercelOutput processedFunctions))
       (\<lambda>_.
     andThen (call (WriteBuildInfo workerJsDir functionsDir staticAssets processedVercelOutput
                      processedFunctions)
                (writeBuildInfo E workerJsDir functionsDir staticAssets processedVercelOutput
                      processedFunctions)) (\<lambda>_.
     emit (CliSuccess (generatedMessage outputtedWorkerPath))))))))))))"

text \<open>The calls that write to the output directory.\<close>

fun writesOutput :: "'pvo event \<Rightarrow> bool" where
  "writesOutput (ProcessOutputDir _ _) = True"
| "writesOutput (BuildWorkerFile _ _ _ _ _ _ _) = True"
| "writesOutput (BuildMetadataFiles _ _) = True"
| "writesOutput (WriteBuildInfo _ _ _ _ _) = True"
| "writesOutput _ = False"

text \<open>The calls of the stages that follow the resolution of the configuration.\<close>

fun laterStage :: "'pvo event \<Rightarrow> bool" where
  "laterStage GetVercelConfig = False"
| "laterStage (CliError _ _) = False"
| "laterStage (ProcessExit _) = False"
| "laterStage (CliLog _) = False"
| "laterStage (CliSuccess _) = False"
| "laterStage _ = True"

text \<open>
  The fields of a descriptor that say which requests it serves; the rest of a descriptor
  is code and its layout.
\<close>

definition routeView :: "FunctionDescriptor \<Rightarrow> string \<times> RuntimeKind \<times> string" where
  "routeView d = (name d, runtimeKind d, routeMatch d)"

section \<open>The stages behind the imported functions\<close>

subsection \<open>ConfigResolver\<close>

text \<open>
  Modelled from the spec: the configuration file as section 6 describes it (a schema
  version, if present, and the route rules in order, each tagged by kind), read by
  \<^verbatim>\<open>getVercelConfig\<close>, whose module is not among the sources. \<open>None\<close> for the file is a
  configuration that cannot be read.
\<close>

record RawRoute =
  rawKind :: string
  rawSrc :: string
  rawDest :: "string option"
  rawStatus :: "nat option"
  rawHeaders :: "(string \<times> string) list"
  rawContinue :: bool

record RawConfig =
  rawVersion :: "nat option"
  rawRoutes :: "RawRoute list"

definition routeKindOf :: "string \<Rightarrow> RouteKind option" where
  "routeKindOf t =
     (if t = ''rewrite'' then Some Rewrite
      else if t = ''redirect'' then Some Redirect
      else if t = ''header-injection'' then Some HeaderInjection
      else if t = ''filesystem-fallback'' then Some FilesystemFallback
      else if t = ''miss'' then Some Miss
      else None)"

definition resolveRoute :: "RawRoute \<Rightarrow> Route option" where
  "resolveRoute r =
     (case routeKindOf (rawKind r) of
        None \<Rightarrow> None
      | Some k \<Rightarrow>
          Some \<lparr>kind = k, src = rawSrc r, dest = rawDest r, status = rawStatus r,
                headers = rawHeaders r, continue = rawContinue r\<rparr>)"

fun resolveRoutes :: "RawRoute list \<Rightarrow> Route list option" where
  "resolveRoutes [] = Some []"
| "resolveRoutes (r # rs) =
     (case resolveRoute r of
        None \<Rightarrow> None
      | Some x \<Rightarrow> (case resolveRoutes rs of None \<Rightarrow> None | Some xs \<Rightarrow> Some (x # xs)))"

text \<open>
  Modelled from the spec: \<^verbatim>\<open>getVercelConfig\<close>, after section 4.1: it fails with
  ConfigError if the configuration cannot be read, if the schema version is absent or
  outside the supported range \<open>lo..hi\<close>, or if a route entry has an unrecognized variant
  tag; it reads and has no other effect.
\<close>

definition ConfigResolver :: "nat \<Rightarrow> nat \<Rightarrow> RawConfig option \<Rightarrow> thrown + VercelConfig" where
  "ConfigResolver lo hi file =
     (case file of
        None \<Rightarrow> Inl (ErrorInstance ConfigError ''malformed build configuration'')
      | Some raw \<Rightarrow>
          (case rawVersion raw of
             None \<Rightarrow> Inl (ErrorInstance ConfigError ''schema version absent'')
           | Some v \<Rightarrow>
               if v < lo \<or> hi < v
               then Inl (ErrorInstance ConfigError ''unsupported schema version'')
               else
                 (case resolveRoutes (rawRoutes raw) of
                    None \<Rightarrow> Inl (ErrorInstance ConfigError ''unrecognized route variant'')
                  | Some rs \<Rightarrow> Inr \<lparr>version = v, routes = rs\<rparr>)))"

subsection \<open>StaticAssetCollector\<close>

text \<open>
  Modelled from the spec: \<^verbatim>\<open>getVercelStaticAssets\<close> (module processVercelOutput, not
  among the sources), after section 4.2: the files of the static tree, as (path, content) in the
  order the traversal met them, become the sequence of StaticAsset ordered by path; two
  assets at the same path are a fatal AssetCollisionError. \<open>H\<close> is the content hash;
  that the hash of a file is computed only when needed does not show in the value.
\<close>

definition assetOf :: "(string \<Rightarrow> string) \<Rightarrow> string \<times> string \<Rightarrow> StaticAsset" where
  "assetOf H f = \<lparr>path = fst f, contentHash = H (snd f), byteSize = length (snd f)\<rparr>"

definition StaticAssetCollector ::
  "(string \<Rightarrow> string) \<Rightarrow> (string \<times> string) list \<Rightarrow> thrown + StaticAsset list" where
  "StaticAssetCollector H files =
     (if \<not> distinct (map fst files)
      then Inl (ErrorInstance AssetCollisionError ''two static assets at the same path'')
      else Inr (sort_key path (map (assetOf H) files)))"

subsection \<open>FunctionProcessor\<close>

text \<open>
  Modelled from the spec: the first half of \<^verbatim>\<open>processVercelFunctions\<close> (module
  processVercelFunctions, not among the sources), after sections 4.3 and 5. A function directory
  carries a manifest with its runtime kind, its entry code and the code units it depends on.
  The directories are given in the order in which their processing finished. A directory of
  unsupported runtime kind is skipped with a warning; the others yield one descriptor each,
  every dependency a private unit, the implicit route the directory's position; the
  descriptors are then sorted by function path.
\<close>

record FunctionDir =
  dirPath :: string
  manifestRuntime :: RuntimeKind
  entry :: string
  dependencies :: "string list"
  regions :: "string list"

definition describe :: "FunctionDir \<Rightarrow> FunctionDescriptor" where
  "describe d =
     \<lparr>name = dirPath d, runtimeKind = manifestRuntime d, entryCode = entry d,
      privateUnits = dependencies d, chunkRefs = [], routeMatch = dirPath d,
      declaredRegions = regions d\<rparr>"

definition supported :: "FunctionDir \<Rightarrow> bool" where
  "supported d = (manifestRuntime d \<noteq> Unsupported)"

text \<open>
  Modelled from the spec: FunctionProcessor (sections 4.3 and 5), returning the descriptors
  sorted by function path and the paths of the skipped directories, sorted as well.
\<close>

definition FunctionProcessor :: "FunctionDir list \<Rightarrow> FunctionDescriptor list \<times> string list" where
  "FunctionProcessor dirs =
     (sort_key name (map describe (filter supported dirs)),
      sort (map dirPath (filter (\<lambda>d. \<not> supported d) dirs)))"

subsection \<open>ChunkDeduplicator\<close>

text \<open>
  Modelled from the spec: the second half of \<^verbatim>\<open>processVercelFunctions\<close>, after section
  4.4. The candidates are the private units of all descriptors, each with the function
  it belongs to; they are grouped by content hash; a group referenced by two or more
  functions becomes one Chunk, whose id is the hash, and the private units of that group
  are rewritten into references to it; a group of one function stays private. Two
  candidates of the same hash and different bytes, or a reference to no Chunk after the
  rewrite, are a fatal ChunkIntegrityError. With dedup disabled the stage returns its
  input and no Chunk.
\<close>

definition candidates :: "FunctionDescriptor list \<Rightarrow> (string \<times> string) list" where
  "candidates ds = concat (map (\<lambda>d. map (\<lambda>u. (name d, u)) (privateUnits d)) ds)"

definition groupOf ::
  "(string \<Rightarrow> string) \<Rightarrow> (string \<times> string) list \<Rightarrow> string \<Rightarrow> (string \<times> string) list" where
  "groupOf H cs h = filter (\<lambda>c. H (snd c) = h) cs"

definition groupHashes :: "(string \<Rightarrow> string) \<Rightarrow> (string \<times> string) list \<Rightarrow> string list" where
  "groupHashes H cs = remdups (map (\<lambda>c. H (snd c)) cs)"

definition referencers ::
  "(string \<Rightarrow> string) \<Rightarrow> (string \<times> string) list \<Rightarrow> string \<Rightarrow> string list" where
  "referencers H cs h = remdups (map fst (groupOf H cs h))"

definition collision :: "(string \<Rightarrow> string) \<Rightarrow> (string \<times> string) list \<Rightarrow> bool" where
  "collision H cs =
     list_ex (\<lambda>c. list_ex (\<lambda>c'. H (snd c) = H (snd c') \<and> snd c \<noteq> snd c') cs) cs"

definition materialize ::
  "(string \<Rightarrow> string) \<Rightarrow> (string \<times> string) list \<Rightarrow> string \<Rightarrow> Chunk option" where
  "materialize H cs h =
     (case groupOf H cs h of
        [] \<Rightarrow> None
      | c # _ \<Rightarrow>
          if 2 \<le> length (referencers H cs h)
          then Some \<lparr>chunkId = h, byteContent = snd c, referencedBy = referencers H cs h\<rparr>
          else None)"

definition hoist :: "(string \<Rightarrow> string) \<Rightarrow> (string \<times> string) list \<Rightarrow> Chunk list" where
  "hoist H cs = List.map_filter (materialize H cs) (groupHashes H cs)"

definition rewrite ::
  "(string \<Rightarrow> string) \<Rightarrow> string list \<Rightarrow> FunctionDescriptor \<Rightarrow> FunctionDescriptor" where
  "rewrite H ids d =
     d\<lparr>privateUnits := filter (\<lambda>u. H u \<notin> set ids) (privateUnits d),
       chunkRefs := remdups (chunkRefs d @ filter (\<lambda>h. h \<in> set ids) (map H (privateUnits d)))\<rparr>"

definition dangling :: "Chunk list \<Rightarrow> FunctionDescriptor list \<Rightarrow> bool" where
  "dangling chunks ds =
     list_ex (\<lambda>d. list_ex (\<lambda>r. r \<notin> set (map chunkId chunks)) (chunkRefs d)) ds"

text \<open>
  Modelled from the spec: ChunkDeduplicator (section 4.4), from the pieces above; \<open>disabled\<close>
  is the flag that turns dedup off.
\<close>

definition ChunkDeduplicator ::
  "(string \<Rightarrow> string) \<Rightarrow> bool \<Rightarrow> FunctionDescriptor list
     \<Rightarrow> thrown + FunctionDescriptor list \<times> Chunk list" where
  "ChunkDeduplicator H disabled ds =
     (if disabled then Inr (ds, [])
      else
        let cs = candidates ds in
        if collision H cs
        then Inl (ErrorInstance ChunkIntegrityError ''hash collision between distinct content'')
        else
          let chunks = hoist H cs;
              ds' = map (rewrite H (map chunkId chunks)) ds
          in if dangling chunks ds'
             then Inl (ErrorInstance ChunkIntegrityError ''dangling chunk reference'')
             else Inr (ds', chunks))"

subsection \<open>processVercelFunctions, from its two stages\<close>

text \<open>
  Modelled from the spec: \<^verbatim>\<open>processVercelFunctions\<close> as FunctionProcessor followed by
  ChunkDeduplicator, its result partitioned into the prerendered and the edge functions
  (section 4.3). The four paths and the configuration are informational.
\<close>

definition specProcessVercelFunctions ::
  "(string \<Rightarrow> string) \<Rightarrow> FunctionDir list
     \<Rightarrow> string \<Rightarrow> string \<Rightarrow> string \<Rightarrow> string \<Rightarrow> bool \<Rightarrow> VercelConfig
     \<Rightarrow> thrown + ProcessedVercelFunctions" where
  "specProcessVercelFunctions H dirs functionsDir outputDir workerJsDir nopDistDir dedupOff cfg =
     (case ChunkDeduplicator H dedupOff (fst (FunctionProcessor dirs)) of
        Inl e \<Rightarrow> Inl e
      | Inr r \<Rightarrow>
          Inr \<lparr>collectedFunctions =
                 Some \<lparr>prerenderedFunctions = filter (\<lambda>d. runtimeKind d = Prerendered) (fst r),
                       edgeFunctions = filter (\<lambda>d. runtimeKind d = Edge) (fst r)\<rparr>,
               chunkMap = snd r,
               warnings = snd (FunctionProcessor dirs)\<rparr>)"

subsection \<open>Node's path.join and path.resolve\<close>

text \<open>
  The POSIX variants of \<^verbatim>\<open>path.join\<close> and \<^verbatim>\<open>path.resolve\<close> of Node, for the
  examples. Both normalise: empty segments and \<^verbatim>\<open>.\<close> are dropped, \<^verbatim>\<open>..\<close> removes
  the segment before it, and stays only at the start of a relative path.
  \<^verbatim>\<open>join\<close> ignores empty arguments, keeps a trailing slash and gives \<^verbatim>\<open>.\<close> for an
  empty result; \<^verbatim>\<open>resolve\<close> reads its arguments from the right until one is
  absolute, falls back on the working directory, and drops a trailing slash.
\<close>

fun joinSegments :: "string list \<Rightarrow> string" where
  "joinSegments [] = []"
| "joinSegments [p] = p"
| "joinSegments (p # ps) = p @ ''/'' @ joinSegments ps"

fun splitPath :: "string \<Rightarrow> string list" where
  "splitPath [] = [[]]"
| "splitPath (c # cs) =
     (if c = CHR ''/'' then [] # splitPath cs
      else (case splitPath cs of [] \<Rightarrow> [[c]] | s # ss \<Rightarrow> (c # s) # ss))"

fun normalizeSegments :: "bool \<Rightarrow> string list \<Rightarrow> string list \<Rightarrow> string list" where
  "normalizeSegments allowAboveRoot acc [] = rev acc"
| "normalizeSegments allowAboveRoot acc (s # ss) =
     (if s = [] \<or> s = ''.'' then normalizeSegments allowAboveRoot acc ss
      else if s = ''..'' then
        (case acc of
           [] \<Rightarrow> normalizeSegments allowAboveRoot (if allowAboveRoot then [''..''] else []) ss
         | a # rest \<Rightarrow>
             if a = ''..''
             then normalizeSegments allowAboveRoot (if allowAboveRoot then ''..'' # acc else acc) ss
             else normalizeSegments allowAboveRoot rest ss)
      else normalizeSegments allowAboveRoot (s # acc) ss)"

definition normalizePath :: "string \<Rightarrow> string" where
  "normalizePath p =
     (if p = [] then ''.''
      else
        let isAbsolute = (hd p = CHR ''/'');
            trailing = (last p = CHR ''/'');
            body = joinSegments (normalizeSegments (\<not> isAbsolute) [] (splitPath p))
        in if body = [] then (if isAbsolute then ''/'' else if trailing then ''./'' else ''.'')
           else (if isAbsolute then ''/'' else []) @ body @ (if trailing then ''/'' else []))"

definition pathJoin :: "string list \<Rightarrow> string" where
  "pathJoin args =
     (let joined = joinSegments (filter (\<lambda>a. a \<noteq> []) args)
      in if joined = [] then ''.'' else normalizePath joined)"

fun resolveArgs :: "string \<Rightarrow> string list \<Rightarrow> string" where
  "resolveArgs acc [] = acc"
| "resolveArgs acc (p # ps) =
     (if p = [] then resolveArgs acc ps
      else if hd p = CHR ''/'' then p @ ''/'' @ acc
      else resolveArgs (p @ ''/'' @ acc) ps)"

definition pathResolve :: "string \<Rightarrow> string list \<Rightarrow> string" where
  "pathResolve cwd args =
     (let raw = resolveArgs [] (rev args @ [cwd]);
          isAbsolute = (raw \<noteq> [] \<and> hd raw = CHR ''/'');
          body = joinSegments (normalizeSegments (\<not> isAbsolute) [] (splitPath raw))
      in if isAbsolute then ''/'' @ body else if body = [] then ''.'' else body)"

subsection \<open>The imported functions over an input tree\<close>

text \<open>
  For running the orchestration on concrete inputs: the imported functions as the stages
  above over an input tree (the configuration file if it can be read, the static files,
  the function directories if the functions directory exists), in the working directory
  \<open>cwd\<close>, with the module in the directory \<open>moduleDir\<close>. No property of the
  orchestration below is stated for these functions only: each holds for every record of
  imported functions, and this record shows that its hypotheses can be met.

  \<^verbatim>\<open>processVercelOutput\<close> and the router are not modelled. \<open>routingInputsOf\<close> is not
  a model of section 4.5: it only gives a run a value to hand on, made of what it was
  given (the configuration's routes in order, the static asset paths and the name, runtime
  kind and route of each function). The writers succeed; \<^verbatim>\<open>buildWorkerFile\<close> answers
  with the path of \<^verbatim>\<open>index.js\<close> in the worker directory.
\<close>

type_synonym routingInputs =
  "Route list \<times> string list
     \<times> (string \<times> RuntimeKind \<times> string) list option
     \<times> (string \<times> RuntimeKind \<times> string) list option"

definition routingInputsOf ::
  "VercelConfig \<Rightarrow> StaticAsset list \<Rightarrow> FunctionDescriptor list option
     \<Rightarrow> FunctionDescriptor list option \<Rightarrow> thrown + routingInputs" where
  "routingInputsOf cfg assets pre edg =
     Inr (routes cfg, map path assets, map_option (map routeView) pre,
          map_option (map routeView) edg)"

definition stagedCollaborators ::
  "nat \<Rightarrow> nat \<Rightarrow> (string \<Rightarrow> string) \<Rightarrow> string \<Rightarrow> string \<Rightarrow> RawConfig option
     \<Rightarrow> (string \<times> string) list \<Rightarrow> FunctionDir list option \<Rightarrow> routingInputs collaborators" where
  "stagedCollaborators lo hi H cwd moduleDir file files dirs =
     \<lparr>getVercelConfig = ConfigResolver lo hi file,
      getVercelStaticAssets = StaticAssetCollector H files,
      processOutputDir = (\<lambda>_ _. Inr ()),
      validateDir = (\<lambda>_. Inr (dirs \<noteq> None)),
      processVercelFunctions =
        specProcessVercelFunctions H (case dirs of None \<Rightarrow> [] | Some ds \<Rightarrow> ds),
      processVercelOutput = routingInputsOf,
      buildWorkerFile = (\<lambda>_ _ workerJsDir _ _ _ _. Inr (pathJoin [workerJsDir, ''index.js''])),
      buildMetadataFiles = (\<lambda>_ _. Inr ()),
      printBuildSummary = (\<lambda>_ _ _. Inr ()),
      writeBuildInfo = (\<lambda>_ _ _ _ _. Inr ()),
      resolve = pathResolve cwd,
      join = pathJoin,
      dirname = moduleDir\<rparr>"

subsection \<open>A small input tree\<close>

text \<open>
  Three function directories in the order their processing finished (two edge functions
  that share the unit \<open>lib\<close>, one function of unsupported runtime kind), two static
  files, one rewrite rule, schema version 3, a hash that prefixes the content with a
  number sign, the working directory \<^verbatim>\<open>/project\<close> and the module in
  \<^verbatim>\<open>/pkg/dist/buildApplication\<close>.
\<close>

definition exHash :: "string \<Rightarrow> string" where
  "exHash u = CHR ''#'' # u"

definition exDirs :: "FunctionDir list" where
  "exDirs =
     [\<lparr>dirPath = ''api/b'', manifestRuntime = Edge, entry = ''eb'',
        dependencies = [''lib''], regions = []\<rparr>,
      \<lparr>dirPath = ''api/old'', manifestRuntime = Unsupported, entry = ''eo'',
        dependencies = [''lib''], regions = []\<rparr>,
      \<lparr>dirPath = ''api/a'', manifestRuntime = Edge, entry = ''ea'',
        dependencies = [''lib'', ''onlyA''], regions = []\<rparr>]"

definition exDescriptors :: "FunctionDescriptor list" where
  "exDescriptors =
     [\<lparr>name = ''api/a'', runtimeKind = Edge, entryCode = ''ea'',
        privateUnits = [''lib'', ''onlyA''], chunkRefs = [], routeMatch = ''api/a'',
        declaredRegions = []\<rparr>,
      \<lparr>name = ''api/b'', runtimeKind = Edge, entryCode = ''eb'',
        privateUnits = [''lib''], chunkRefs = [], routeMatch = ''api/b'',
        declaredRegions = []\<rparr>]"

definition exDeduped :: "FunctionDescriptor list" where
  "exDeduped =
     [\<lparr>name = ''api/a'', runtimeKind = Edge, entryCode = ''ea'',
        privateUnits = [''onlyA''], chunkRefs = [''#lib''], routeMatch = ''api/a'',
        declaredRegions = []\<rparr>,
      \<lparr>name = ''api/b'', runtimeKind = Edge, entryCode = ''eb'',
        privateUnits = [], chunkRefs = [''#lib''], routeMatch = ''api/b'',
        declaredRegions = []\<rparr>]"

definition exChunks :: "Chunk list" where
  "exChunks =
     [\<lparr>chunkId = ''#lib'', byteContent = ''lib'', referencedBy = [''api/a'', ''api/b'']\<rparr>]"

definition exConfig :: RawConfig where
  "exConfig =
     \<lparr>rawVersion = Some 3,
      rawRoutes = [\<lparr>rawKind = ''rewrite'', rawSrc = ''/x'', rawDest = Some ''/api/a'',
                    rawStatus = None, rawHeaders = [], rawContinue = False\<rparr>]\<rparr>"

definition exResolved :: VercelConfig where
  "exResolved =
     \<lparr>version = 3,
      routes = [\<lparr>kind = Rewrite, src = ''/x'', dest = Some ''/api/a'', status = None,
                 headers = [], continue = False\<rparr>]\<rparr>"

definition exFiles :: "(string \<times> string) list" where
  "exFiles = [(''/b.txt'', ''bb''), (''/a.txt'', ''a'')]"

definition exAssets :: "StaticAsset list" where
  "exAssets =
     [\<lparr>path = ''/a.txt'', contentHash = ''#a'', byteSize = 1\<rparr>,
      \<lparr>path = ''/b.txt'', contentHash = ''#bb'', byteSize = 2\<rparr>]"

definition exOpts :: CliOptions where
  "exOpts =
     \<lparr>disableChunksDedup = False, disableWorkerMinification = False, customEntrypoint = None\<rparr>"

definition exTree ::
  "RawConfig option \<Rightarrow> (string \<times> string) list \<Rightarrow> FunctionDir list option
     \<Rightarrow> routingInputs collaborators" where
  "exTree file files dirs =
     stagedCollaborators 3 3 exHash ''/project'' ''/pkg/dist/buildApplication'' file files dirs"

definition exEnv :: "routingInputs collaborators" where
  "exEnv = exTree (Some exConfig) exFiles (Some exDirs)"

definition exTableNoFunctions :: routingInputs where
  "exTableNoFunctions = (routes exResolved, [''/a.txt'', ''/b.txt''], None, None)"

section \<open>Properties of the stages\<close>

subsection \<open>Sequencing\<close>

lemma andThen_Value [simp]: "andThen (evs, Value x) f = (evs @ fst (f x), snd (f x))"
  by (simp add: andThen_def)

lemma andThen_Rejected [simp]: "andThen (evs, Rejected e) f = (evs, Rejected e)"
  by (simp add: andThen_def)

lemma andThen_Exited [simp]: "andThen (evs, Exited n) f = (evs, Exited n)"
  by (simp add: andThen_def)

lemma call_Inr [simp]: "call ev (Inr v) = ([ev], Value v)"
  by (simp add: call_def)

lemma call_Inl [simp]: "call ev (Inl e) = ([ev], Rejected e)"
  by (simp add: call_def)

lemma emit_run [simp]: "emit ev = ([ev], Value ())"
  by (simp add: emit_def)

lemma yield_run [simp]: "yield x = ([], Value x)"
  by (simp add: yield_def)

lemma andThen_call:
  "andThen (call ev r) f =
     (case r of Inl e \<Rightarrow> ([ev], Rejected e) | Inr v \<Rightarrow> (ev # fst (f v), snd (f v)))"
  by (cases r) simp_all

lemma resolveConfig_Inr:
  "getVercelConfig E = Inr c \<Longrightarrow> resolveConfig E = ([GetVercelConfig], Value c)"
  by (simp add: resolveConfig_def)

lemma resolveConfig_Inl:
  "getVercelConfig E = Inl e \<Longrightarrow>
   resolveConfig E =
     ([GetVercelConfig]
        @ (case e of ErrorInstance k msg \<Rightarrow> [CliError msg True] | NonErrorValue \<Rightarrow> [])
        @ [ProcessExit 1],
      Exited 1)"
  by (simp add: resolveConfig_def)

subsection \<open>When the resolver and the collector fail\<close>

text \<open>
  The stages of sections 4.1 and 4.2 throw on the inputs the specification names: these are
  the throws that the orchestration meets in \<^verbatim>\<open>getVercelConfig\<close> and
  \<^verbatim>\<open>getVercelStaticAssets\<close>.
\<close>

lemma resolveRoutes_None:
  "resolveRoutes rs = None \<longleftrightarrow> (\<exists>r \<in> set rs. routeKindOf (rawKind r) = None)"
  by (induction rs) (auto simp: resolveRoute_def split: option.splits)

lemma ConfigResolver_rejects:
  assumes "file = None
           \<or> (\<exists>raw. file = Some raw
                 \<and> (rawVersion raw = None
                     \<or> (\<exists>v. rawVersion raw = Some v \<and> (v < lo \<or> hi < v))
                     \<or> (\<exists>r \<in> set (rawRoutes raw). routeKindOf (rawKind r) = None)))"
  shows "\<exists>msg. ConfigResolver lo hi file = Inl (ErrorInstance ConfigError msg)"
proof -
  have "resolveRoutes rs = Some xs \<Longrightarrow> r \<in> set rs \<Longrightarrow> routeKindOf (rawKind r) \<noteq> None"
    for rs xs r
    using resolveRoutes_None[of rs] by auto
  then show ?thesis
    using assms by (fastforce simp: ConfigResolver_def split: option.splits)
qed

lemma StaticAssetCollector_rejects:
  "\<not> distinct (map fst files) \<Longrightarrow>
   \<exists>msg. StaticAssetCollector H files = Inl (ErrorInstance AssetCollisionError msg)"
  by (simp add: StaticAssetCollector_def)

subsection \<open>The chunk table\<close>

lemma in_candidates:
  "d \<in> set ds \<Longrightarrow> u \<in> set (privateUnits d) \<Longrightarrow> (name d, u) \<in> set (candidates ds)"
  by (auto simp: candidates_def)

lemma collision_free:
  "\<not> collision H cs \<Longrightarrow> c \<in> set cs \<Longrightarrow> c' \<in> set cs \<Longrightarrow> H (snd c) = H (snd c')
     \<Longrightarrow> snd c = snd c'"
  by (auto simp: collision_def list_ex_iff)

lemma materialize_Some:
  "materialize H cs h = Some ch \<Longrightarrow>
     chunkId ch = h \<and> referencedBy ch = referencers H cs h
     \<and> 2 \<le> length (referencers H cs h)
     \<and> (\<exists>c \<in> set (groupOf H cs h). byteContent ch = snd c)"
  by (auto simp: materialize_def split: list.splits if_splits)

lemma set_map_filter:
  "set (List.map_filter f xs) = {y. \<exists>x \<in> set xs. f x = Some y}"
  by (induction xs) (auto split: option.splits)

lemma set_hoist:
  "set (hoist H cs) = {ch. \<exists>h \<in> set (groupHashes H cs). materialize H cs h = Some ch}"
  by (simp add: hoist_def set_map_filter)

lemma chunkIds_map_filter:
  "map chunkId (List.map_filter (materialize H cs) hs)
     = filter (\<lambda>h. materialize H cs h \<noteq> None) hs"
  by (induction hs) (auto dest: materialize_Some split: option.splits)

lemma distinct_chunkIds: "distinct (map chunkId (hoist H cs))"
  by (simp add: hoist_def chunkIds_map_filter groupHashes_def)

lemma hoist_content_hash: "c \<in> set (hoist H cs) \<Longrightarrow> H (byteContent c) = chunkId c"
  by (auto simp: set_hoist groupOf_def dest!: materialize_Some)

lemma hoist_referencers:
  assumes "c \<in> set (hoist H cs)"
  shows "2 \<le> card (set (referencedBy c))"
proof -
  from assms obtain h where "materialize H cs h = Some c"
    by (auto simp: set_hoist)
  then have r: "referencedBy c = referencers H cs h"
    and two: "2 \<le> length (referencers H cs h)"
    by (auto dest: materialize_Some)
  have "distinct (referencers H cs h)"
    by (simp add: referencers_def)
  then have "card (set (referencers H cs h)) = length (referencers H cs h)"
    by (rule distinct_card)
  then show ?thesis using r two by simp
qed

lemma dedup_disabled: "ChunkDeduplicator H True ds = Inr (ds, [])"
  by (simp add: ChunkDeduplicator_def)

lemma dedup_enabled:
  "ChunkDeduplicator H False ds = Inr (ds', chunks) \<Longrightarrow>
     \<not> collision H (candidates ds) \<and> chunks = hoist H (candidates ds)
     \<and> ds' = map (rewrite H (map chunkId chunks)) ds"
  by (auto simp: ChunkDeduplicator_def Let_def split: if_splits)

lemma dedup_chunks:
  "ChunkDeduplicator H disabled ds = Inr (ds', chunks) \<Longrightarrow>
     chunks = [] \<or> chunks = hoist H (candidates ds)"
  by (auto simp: ChunkDeduplicator_def Let_def split: if_splits)

lemma rewrite_refs:
  "u \<in> set (privateUnits d) \<Longrightarrow> H u \<in> set ids \<Longrightarrow> H u \<in> set (chunkRefs (rewrite H ids d))"
  by (auto simp: rewrite_def)

lemma name_rewrite [simp]: "name (rewrite H ids d) = name d"
  by (simp add: rewrite_def)

text \<open>
  A unit that two different functions carry makes a group of two referencers, which is
  hoisted; without a collision the content of the Chunk is that unit.
\<close>

lemma shared_group:
  assumes nc: "\<not> collision H cs"
    and a: "(f, u) \<in> set cs" and b: "(g, u) \<in> set cs" and ne: "f \<noteq> g"
  shows "\<exists>c \<in> set (hoist H cs). chunkId c = H u \<and> byteContent c = u
           \<and> f \<in> set (referencedBy c) \<and> g \<in> set (referencedBy c)"
proof -
  have fa: "(f, u) \<in> set (groupOf H cs (H u))" and gb: "(g, u) \<in> set (groupOf H cs (H u))"
    using a b by (auto simp: groupOf_def)
  have fr: "f \<in> set (referencers H cs (H u))" and gr: "g \<in> set (referencers H cs (H u))"
    using fa gb by (force simp: referencers_def)+
  have "distinct (referencers H cs (H u))"
    by (simp add: referencers_def)
  then have "card (set (referencers H cs (H u))) = length (referencers H cs (H u))"
    by (rule distinct_card)
  moreover have "{f, g} \<subseteq> set (referencers H cs (H u))"
    using fr gr by simp
  then have "card {f, g} \<le> card (set (referencers H cs (H u)))"
    by (intro card_mono) auto
  ultimately have two: "2 \<le> length (referencers H cs (H u))"
    using ne by simp
  obtain c rest where grp: "groupOf H cs (H u) = c # rest"
    using fa by (cases "groupOf H cs (H u)") auto
  have "c \<in> set (groupOf H cs (H u))"
    using grp by simp
  then have cin: "c \<in> set cs" and ch: "H (snd c) = H u"
    by (simp_all add: groupOf_def)
  have cont: "snd c = u"
    using collision_free[OF nc cin a] ch by simp
  define k where
    "k = \<lparr>chunkId = H u, byteContent = snd c, referencedBy = referencers H cs (H u)\<rparr>"
  have m: "materialize H cs (H u) = Some k"
    using grp two by (simp add: materialize_def k_def)
  have "H u \<in> set (groupHashes H cs)"
    using a by (force simp: groupHashes_def)
  then have "k \<in> set (hoist H cs)"
    using m by (auto simp: set_hoist)
  then show ?thesis
    using cont fr gr by (auto simp: k_def intro!: bexI[of _ k])
qed

lemma exDedup: "ChunkDeduplicator exHash False exDescriptors = Inr (exDeduped, exChunks)"
  by (simp add: exDescriptors_def exDeduped_def exChunks_def ChunkDeduplicator_def
        candidates_def collision_def hoist_def groupHashes_def materialize_def groupOf_def
        referencers_def rewrite_def dangling_def exHash_def Let_def)

text \<open>
  C2. ChunkDeduplicator (modelled from section 4.4 of the specification), with dedup
  enabled and no integrity error: when two descriptors of different functions carry a
  byte-identical unit \<open>u\<close>, the chunk table holds a Chunk whose id is the hash of \<open>u\<close>
  and whose content is \<open>u\<close>, both descriptors reference that id after the rewrite, and
  both functions are in the Chunk's referencer set.
\<close>

theorem identical_units_share_chunk:
  assumes run: "ChunkDeduplicator H False ds = Inr (ds', chunks)"
    and i: "i < length ds" and j: "j < length ds"
    and ne: "name (ds ! i) \<noteq> name (ds ! j)"
    and ui: "u \<in> set (privateUnits (ds ! i))" and uj: "u \<in> set (privateUnits (ds ! j))"
  shows "\<exists>c \<in> set chunks. chunkId c = H u \<and> byteContent c = u
           \<and> H u \<in> set (chunkRefs (ds' ! i)) \<and> H u \<in> set (chunkRefs (ds' ! j))
           \<and> name (ds' ! i) \<in> set (referencedBy c) \<and> name (ds' ! j) \<in> set (referencedBy c)"
proof -
  from dedup_enabled[OF run]
  have nc: "\<not> collision H (candidates ds)" and ch: "chunks = hoist H (candidates ds)"
    and ds': "ds' = map (rewrite H (map chunkId chunks)) ds"
    by auto
  have a: "(name (ds ! i), u) \<in> set (candidates ds)"
    using i ui by (auto intro: in_candidates)
  have b: "(name (ds ! j), u) \<in> set (candidates ds)"
    using j uj by (auto intro: in_candidates)
  from shared_group[OF nc a b ne] obtain c where c: "c \<in> set chunks" "chunkId c = H u"
    "byteContent c = u" "name (ds ! i) \<in> set (referencedBy c)"
    "name (ds ! j) \<in> set (referencedBy c)"
    using ch by auto
  have hu: "H u \<in> set (map chunkId chunks)"
    using c by force
  have "H u \<in> set (chunkRefs (ds' ! i))" "H u \<in> set (chunkRefs (ds' ! j))"
    using i j ui uj hu by (simp_all add: ds' rewrite_refs)
  moreover have "name (ds' ! i) = name (ds ! i)" "name (ds' ! j) = name (ds ! j)"
    using i j by (simp_all add: ds')
  ultimately show ?thesis
    using c by auto
qed

theorem identical_units_share_chunk_witness:
  "ChunkDeduplicator exHash False exDescriptors = Inr (exDeduped, exChunks)
   \<and> name (exDescriptors ! 0) \<noteq> name (exDescriptors ! 1)
   \<and> ''lib'' \<in> set (privateUnits (exDescriptors ! 0))
   \<and> ''lib'' \<in> set (privateUnits (exDescriptors ! 1))
   \<and> (\<exists>c \<in> set exChunks. chunkId c = exHash ''lib'' \<and> byteContent c = ''lib''
         \<and> exHash ''lib'' \<in> set (chunkRefs (exDeduped ! 0))
         \<and> exHash ''lib'' \<in> set (chunkRefs (exDeduped ! 1))
         \<and> name (exDeduped ! 0) \<in> set (referencedBy c)
         \<and> name (exDeduped ! 1) \<in> set (referencedBy c))"
proof -
  have i: "0 < length exDescriptors" and j: "1 < length exDescriptors"
    and ne: "name (exDescriptors ! 0) \<noteq> name (exDescriptors ! 1)"
    and ui: "''lib'' \<in> set (privateUnits (exDescriptors ! 0))"
    and uj: "''lib'' \<in> set (privateUnits (exDescriptors ! 1))"
    by (simp_all add: exDescriptors_def)
  note identical_units_share_chunk[OF exDedup i j ne ui uj]
  with exDedup ne ui uj show ?thesis
    by (intro conjI)
qed

text \<open>
  C3. ChunkDeduplicator (modelled from section 4.4), dedup enabled or disabled: in the
  chunk table it returns, every Chunk has at least one referencing function, and no two
  entries have the same content hash.
\<close>

theorem chunk_table_invariants:
  assumes run: "ChunkDeduplicator H disabled ds = Inr (ds', chunks)"
  shows "(\<forall>c \<in> set chunks. 1 \<le> card (set (referencedBy c)))
         \<and> distinct (map (\<lambda>c. H (byteContent c)) chunks)"
proof -
  from dedup_chunks[OF run] show ?thesis
  proof
    assume "chunks = []"
    then show ?thesis by simp
  next
    assume ch: "chunks = hoist H (candidates ds)"
    have eq: "map (\<lambda>c. H (byteContent c)) chunks = map chunkId chunks"
      by (rule map_cong) (simp_all add: ch hoist_content_hash)
    have "distinct (map chunkId chunks)"
      unfolding ch by (rule distinct_chunkIds)
    then have "distinct (map (\<lambda>c. H (byteContent c)) chunks)"
      by (simp only: eq)
    moreover have "\<forall>c \<in> set chunks. 1 \<le> card (set (referencedBy c))"
      using ch hoist_referencers by fastforce
    ultimately show ?thesis by simp
  qed
qed

theorem chunk_table_invariants_witness:
  "ChunkDeduplicator exHash False exDescriptors = Inr (exDeduped, exChunks)
   \<and> exChunks \<noteq> []
   \<and> 1 \<le> card (set (referencedBy (exChunks ! 0)))
   \<and> distinct (map (\<lambda>c. exHash (byteContent c)) exChunks)"
proof -
  have "exChunks ! 0 \<in> set exChunks" and "exChunks \<noteq> []"
    by (simp_all add: exChunks_def)
  with chunk_table_invariants[OF exDedup] exDedup show ?thesis
    by blast
qed

subsection \<open>The order of arrival\<close>

lemma sort_key_perm:
  assumes m: "mset xs = mset ys" and d: "distinct (map f xs)"
  shows "sort_key f xs = sort_key f ys"
proof (rule sort_key_inj_key_eq)
  show "mset xs = mset (sort_key f ys)"
    using m by simp
  show "inj_on f (set xs)"
    using d by (simp add: distinct_map)
  show "sorted (map f (sort_key f ys))"
    by (rule sorted_sort_key)
qed

lemma sort_perm:
  fixes xs :: "'a::linorder list"
  assumes "mset xs = mset ys"
  shows "sort xs = sort ys"
  by (rule properties_for_sort) (simp_all add: assms)

lemma path_assetOf: "map path (map (assetOf H) files) = map fst files"
  by (simp add: assetOf_def comp_def)

lemma StaticAssetCollector_perm:
  assumes m: "mset files1 = mset files2"
  shows "StaticAssetCollector H files1 = StaticAssetCollector H files2"
proof -
  have mm: "mset (map fst files1) = mset (map fst files2)"
    using m by (metis mset_map)
  have dd: "distinct (map fst files1) = distinct (map fst files2)"
    using mm by (rule mset_eq_imp_distinct_iff)
  show ?thesis
  proof (cases "distinct (map fst files1)")
    case False
    then show ?thesis
      using dd by (simp add: StaticAssetCollector_def)
  next
    case True
    have "mset (map (assetOf H) files1) = mset (map (assetOf H) files2)"
      using m by (metis mset_map)
    moreover have "distinct (map path (map (assetOf H) files1))"
      using True by (simp only: path_assetOf)
    ultimately have "sort_key path (map (assetOf H) files1)
        = sort_key path (map (assetOf H) files2)"
      by (rule sort_key_perm)
    then show ?thesis
      using True dd by (simp add: StaticAssetCollector_def)
  qed
qed

lemma name_describe: "map name (map describe ds) = map dirPath ds"
  by (simp add: describe_def comp_def)

lemma FunctionProcessor_perm:
  assumes m: "mset dirs1 = mset dirs2" and d: "distinct (map dirPath dirs1)"
  shows "FunctionProcessor dirs1 = FunctionProcessor dirs2"
proof -
  have f: "mset (filter P dirs1) = mset (filter P dirs2)" for P
    using m by simp
  have "mset (map describe (filter supported dirs1))
      = mset (map describe (filter supported dirs2))"
    using f[of supported] by (metis mset_map)
  moreover have "distinct (map name (map describe (filter supported dirs1)))"
    using d by (simp only: name_describe distinct_map_filter)
  ultimately have a: "sort_key name (map describe (filter supported dirs1))
      = sort_key name (map describe (filter supported dirs2))"
    by (rule sort_key_perm)
  have "mset (map dirPath (filter (\<lambda>d. \<not> supported d) dirs1))
      = mset (map dirPath (filter (\<lambda>d. \<not> supported d) dirs2))"
    using f[of "\<lambda>d. \<not> supported d"] by (metis mset_map)
  then have b: "sort (map dirPath (filter (\<lambda>d. \<not> supported d) dirs1))
      = sort (map dirPath (filter (\<lambda>d. \<not> supported d) dirs2))"
    by (rule sort_perm)
  show ?thesis
    by (simp add: FunctionProcessor_def a b)
qed

text \<open>
  C6. With the static files collected by StaticAssetCollector and the functions processed
  by FunctionProcessor and ChunkDeduplicator (modelled from sections 4.2 to 4.4 and 5),
  a run of \<^verbatim>\<open>prepareAndBuildWorker\<close> does not depend on the order in which the
  function directories finished processing, nor on the order in which the static files
  were met: two runs on the same files and directories, whose paths are unique, make the
  same calls with the same arguments, so \<^verbatim>\<open>processVercelOutput\<close> receives the same
  configuration, assets and functions and the worker is built from the same route table.
\<close>

theorem route_table_schedule_independent:
  assumes dirs: "mset dirs1 = mset dirs2" and unique: "distinct (map dirPath dirs1)"
    and files: "mset files1 = mset files2"
  shows "prepareAndBuildWorker
           (E\<lparr>getVercelStaticAssets := StaticAssetCollector H files1,
              processVercelFunctions := specProcessVercelFunctions H dirs1\<rparr>) outputDir opts
       = prepareAndBuildWorker
           (E\<lparr>getVercelStaticAssets := StaticAssetCollector H files2,
              processVercelFunctions := specProcessVercelFunctions H dirs2\<rparr>) outputDir opts"
proof -
  have "specProcessVercelFunctions H dirs1 = specProcessVercelFunctions H dirs2"
    unfolding specProcessVercelFunctions_def FunctionProcessor_perm[OF dirs unique] ..
  then show ?thesis
    by (simp add: StaticAssetCollector_perm[OF files])
qed

theorem route_table_schedule_independent_witness:
  "prepareAndBuildWorker
     (exEnv\<lparr>getVercelStaticAssets := StaticAssetCollector exHash exFiles,
            processVercelFunctions := specProcessVercelFunctions exHash exDirs\<rparr>) ''out'' exOpts
   = prepareAndBuildWorker
     (exEnv\<lparr>getVercelStaticAssets := StaticAssetCollector exHash (rev exFiles),
            processVercelFunctions := specProcessVercelFunctions exHash (rev exDirs)\<rparr>)
       ''out'' exOpts
   \<and> rev exDirs \<noteq> exDirs \<and> rev exFiles \<noteq> exFiles"
proof -
  have a: "mset exDirs = mset (rev exDirs)"
    by simp
  have b: "distinct (map dirPath exDirs)"
    by (simp add: exDirs_def)
  have c: "mset exFiles = mset (rev exFiles)"
    by simp
  have d: "rev exDirs \<noteq> exDirs" "rev exFiles \<noteq> exFiles"
    by (simp_all add: exDirs_def exFiles_def)
  from route_table_schedule_independent[OF a b c] d show ?thesis
    by (intro conjI)
qed

subsection \<open>The stages on the small input tree\<close>

lemma exResolve: "ConfigResolver 3 3 (Some exConfig) = Inr exResolved"
  by (simp add: ConfigResolver_def exConfig_def exResolved_def resolveRoute_def routeKindOf_def)

lemma exCollect: "StaticAssetCollector exHash exFiles = Inr exAssets"
  by (simp add: StaticAssetCollector_def exFiles_def assetOf_def exHash_def exAssets_def)

section \<open>Properties of the orchestration\<close>

text \<open>
  C8. When \<^verbatim>\<open>getVercelConfig\<close> throws (section 4.1 of the specification: a malformed
  configuration, an absent or unsupported schema version, an unrecognized route tag), the
  run reports the error's message, if the thrown value is an \<^verbatim>\<open>Error\<close>, and ends
  with \<^verbatim>\<open>exit(1)\<close>; these are all the calls it makes: no static asset is collected,
  no function processed, nothing written.
\<close>

theorem config_failure_aborts:
  assumes "getVercelConfig E = Inl e"
  shows "prepareAndBuildWorker E outputDir opts =
           ([GetVercelConfig]
              @ (case e of ErrorInstance k msg \<Rightarrow> [CliError msg True] | NonErrorValue \<Rightarrow> [])
              @ [ProcessExit 1],
            Exited 1)
         \<and> \<not> list_ex laterStage (fst (prepareAndBuildWorker E outputDir opts))"
  using assms
  by (cases e) (simp_all add: prepareAndBuildWorker_def resolveConfig_Inl)

theorem config_failure_aborts_witness:
  "getVercelConfig (exTree (Some (exConfig\<lparr>rawVersion := Some 2\<rparr>)) exFiles (Some exDirs))
   = Inl (ErrorInstance ConfigError ''unsupported schema version'')
   \<and> prepareAndBuildWorker
       (exTree (Some (exConfig\<lparr>rawVersion := Some 2\<rparr>)) exFiles (Some exDirs)) ''out'' exOpts
     = ([GetVercelConfig, CliError ''unsupported schema version'' True, ProcessExit 1], Exited 1)"
proof -
  have bad: "getVercelConfig
          (exTree (Some (exConfig\<lparr>rawVersion := Some 2\<rparr>)) exFiles (Some exDirs))
        = Inl (ErrorInstance ConfigError ''unsupported schema version'')"
    by (simp add: exTree_def stagedCollaborators_def ConfigResolver_def exConfig_def)
  from config_failure_aborts[OF bad] bad show ?thesis
    by simp
qed

text \<open>
  C9. When the configuration resolves and \<^verbatim>\<open>getVercelStaticAssets\<close> throws (section
  4.2: two static assets at the same path are an AssetCollisionError), the run ends
  rejected with that very error after two calls, neither of which writes: the output
  directory is not touched and no worker is built.
\<close>

theorem asset_collision_aborts:
  assumes "getVercelConfig E = Inr cfg"
    and "getVercelStaticAssets E = Inl e"
  shows "prepareAndBuildWorker E outputDir opts
           = ([GetVercelConfig, GetVercelStaticAssets], Rejected e)
         \<and> \<not> list_ex writesOutput (fst (prepareAndBuildWorker E outputDir opts))"
  using assms
  by (simp add: prepareAndBuildWorker_def resolveConfig_Inr)

theorem asset_collision_aborts_witness:
  "getVercelStaticAssets
     (exTree (Some exConfig) [(''/a.txt'', ''x''), (''/a.txt'', ''y'')] (Some exDirs))
   = Inl (ErrorInstance AssetCollisionError ''two static assets at the same path'')
   \<and> prepareAndBuildWorker
       (exTree (Some exConfig) [(''/a.txt'', ''x''), (''/a.txt'', ''y'')] (Some exDirs))
       ''out'' exOpts
     = ([GetVercelConfig, GetVercelStaticAssets],
        Rejected (ErrorInstance AssetCollisionError ''two static assets at the same path''))"
proof -
  have a: "getVercelConfig
          (exTree (Some exConfig) [(''/a.txt'', ''x''), (''/a.txt'', ''y'')] (Some exDirs))
        = Inr exResolved"
    by (simp add: exTree_def stagedCollaborators_def exResolve)
  have b: "getVercelStaticAssets
          (exTree (Some exConfig) [(''/a.txt'', ''x''), (''/a.txt'', ''y'')] (Some exDirs))
        = Inl (ErrorInstance AssetCollisionError ''two static assets at the same path'')"
    by (simp add: exTree_def stagedCollaborators_def StaticAssetCollector_def)
  from asset_collision_aborts[OF a b] b show ?thesis
    by simp
qed

text \<open>
  A collision that only \<^verbatim>\<open>processOutputDir\<close> detects ends the run as well, before
  any function is processed and before the worker is built.
\<close>

lemma output_copy_failure:
  assumes "getVercelConfig E = Inr cfg"
    and "getVercelStaticAssets E = Inr assets"
    and "processOutputDir E outputDir assets = Inl e"
  shows "prepareAndBuildWorker E outputDir opts
           = ([GetVercelConfig, GetVercelStaticAssets, ProcessOutputDir outputDir assets],
              Rejected e)"
  using assms
  by (simp add: prepareAndBuildWorker_def resolveConfig_Inr)

text \<open>The run up to the test for the functions directory, when that directory is absent.\<close>

lemma run_without_functions:
  assumes cfg: "getVercelConfig E = Inr cfg"
    and assets: "getVercelStaticAssets E = Inr assets"
    and pod: "processOutputDir E outputDir assets = Inr ()"
    and vd: "validateDir E (functionsDirOf E) = Inr False"
  shows "prepareAndBuildWorker E outputDir opts =
     andThen
       ([GetVercelConfig, GetVercelStaticAssets, ProcessOutputDir outputDir assets,
         ValidateDir (functionsDirOf E), CliLog noFunctionsMessage], Value ())
       (\<lambda>_.
     andThen (call (ProcessVercelOutput cfg assets None None)
                (processVercelOutput E cfg assets None None)) (\<lambda>t.
     andThen (call (BuildWorkerFile t outputDir (workerJsDirOf E outputDir)
                      (nopDistDirOf E outputDir) (templatesDirOf E) (customEntrypoint opts)
                      (\<not> disableWorkerMinification opts))
                (buildWorkerFile E t outputDir (workerJsDirOf E outputDir)
                      (nopDistDirOf E outputDir) (templatesDirOf E) (customEntrypoint opts)
                      (\<not> disableWorkerMinification opts))) (\<lambda>w.
     andThen (call (BuildMetadataFiles outputDir assets)
                (buildMetadataFiles E outputDir assets)) (\<lambda>_.
     andThen (call (PrintBuildSummary assets t None) (printBuildSummary E assets t None)) (\<lambda>_.
     andThen (call (WriteBuildInfo (workerJsDirOf E outputDir) (functionsDirOf E) assets t None)
                (writeBuildInfo E (workerJsDirOf E outputDir) (functionsDirOf E) assets t None))
       (\<lambda>_.
     emit (CliSuccess (generatedMessage w))))))))"
  using assms
  by (simp add: prepareAndBuildWorker_def resolveConfig_Inr collectFunctions_def
        prerenderedOf_def edgeOf_def Let_def andThen_call split: sum.splits)

text \<open>
  C10. When the configuration resolves, the static assets are collected and copied, and
  \<^verbatim>\<open>validateDir\<close> answers that the functions directory does not exist, the run logs
  that no functions were detected and goes on to \<^verbatim>\<open>processVercelOutput\<close> with both
  function sets \<^verbatim>\<open>undefined\<close>, without calling \<^verbatim>\<open>processVercelFunctions\<close>; and if the
  later imported functions succeed, it completes: the worker is built from that route table,
  the metadata, the summary and the build info are written, and success is reported.
\<close>

theorem missing_functions_directory:
  assumes cfg: "getVercelConfig E = Inr cfg"
    and assets: "getVercelStaticAssets E = Inr assets"
    and pod: "processOutputDir E outputDir assets = Inr ()"
    and vd: "validateDir E (functionsDirOf E) = Inr False"
  shows "(\<exists>rest. fst (prepareAndBuildWorker E outputDir opts) =
            [GetVercelConfig, GetVercelStaticAssets, ProcessOutputDir outputDir assets,
             ValidateDir (functionsDirOf E), CliLog noFunctionsMessage,
             ProcessVercelOutput cfg assets None None] @ rest)
         \<and> (\<forall>t w.
              processVercelOutput E cfg assets None None = Inr t \<longrightarrow>
              buildWorkerFile E t outputDir (workerJsDirOf E outputDir)
                (nopDistDirOf E outputDir) (templatesDirOf E) (customEntrypoint opts)
                (\<not> disableWorkerMinification opts) = Inr w \<longrightarrow>
              buildMetadataFiles E outputDir assets = Inr () \<longrightarrow>
              printBuildSummary E assets t None = Inr () \<longrightarrow>
              writeBuildInfo E (workerJsDirOf E outputDir) (functionsDirOf E) assets t None
                = Inr () \<longrightarrow>
              prepareAndBuildWorker E outputDir opts =
                ([GetVercelConfig, GetVercelStaticAssets, ProcessOutputDir outputDir assets,
                  ValidateDir (functionsDirOf E), CliLog noFunctionsMessage,
                  ProcessVercelOutput cfg assets None None,
                  BuildWorkerFile t outputDir (workerJsDirOf E outputDir)
                    (nopDistDirOf E outputDir) (templatesDirOf E) (customEntrypoint opts)
                    (\<not> disableWorkerMinification opts),
                  BuildMetadataFiles outputDir assets,
                  PrintBuildSummary assets t None,
                  WriteBuildInfo (workerJsDirOf E outputDir) (functionsDirOf E) assets t None,
                  CliSuccess (generatedMessage w)],
                 Value ()))"
proof (intro conjI allI impI)
  show "\<exists>rest. fst (prepareAndBuildWorker E outputDir opts) =
            [GetVercelConfig, GetVercelStaticAssets, ProcessOutputDir outputDir assets,
             ValidateDir (functionsDirOf E), CliLog noFunctionsMessage,
             ProcessVercelOutput cfg assets None None] @ rest"
    by (simp add: run_without_functions[OF assms] andThen_call split: sum.splits)
next
  fix t w
  assume "processVercelOutput E cfg assets None None = Inr t"
    "buildWorkerFile E t outputDir (workerJsDirOf E outputDir)
       (nopDistDirOf E outputDir) (templatesDirOf E) (customEntrypoint opts)
       (\<not> disableWorkerMinification opts) = Inr w"
    "buildMetadataFiles E outputDir assets = Inr ()"
    "printBuildSummary E assets t None = Inr ()"
    "writeBuildInfo E (workerJsDirOf E outputDir) (functionsDirOf E) assets t None = Inr ()"
  then show "prepareAndBuildWorker E outputDir opts =
                ([GetVercelConfig, GetVercelStaticAssets, ProcessOutputDir outputDir assets,
                  ValidateDir (functionsDirOf E), CliLog noFunctionsMessage,
                  ProcessVercelOutput cfg assets None None,
                  BuildWorkerFile t outputDir (workerJsDirOf E outputDir)
                    (nopDistDirOf E outputDir) (templatesDirOf E) (customEntrypoint opts)
                    (\<not> disableWorkerMinification opts),
                  BuildMetadataFiles outputDir assets,
                  PrintBuildSummary assets t None,
                  WriteBuildInfo (workerJsDirOf E outputDir) (functionsDirOf E) assets t None,
                  CliSuccess (generatedMessage w)],
                 Value ())"
    by (simp add: run_without_functions[OF assms])
qed

theorem missing_functions_directory_witness:
  "validateDir (exTree (Some exConfig) exFiles None) ''/project/.vercel/output/functions''
     = Inr False
   \<and> prepareAndBuildWorker (exTree (Some exConfig) exFiles None) ''out'' exOpts
     = ([GetVercelConfig, GetVercelStaticAssets, ProcessOutputDir ''out'' exAssets,
         ValidateDir ''/project/.vercel/output/functions'', CliLog noFunctionsMessage,
         ProcessVercelOutput exResolved exAssets None None,
         BuildWorkerFile exTableNoFunctions ''out'' ''out/_worker.js''
           ''out/_worker.js/__next-on-pages-dist__'' ''/pkg/dist/templates'' None True,
         BuildMetadataFiles ''out'' exAssets,
         PrintBuildSummary exAssets exTableNoFunctions None,
         WriteBuildInfo ''out/_worker.js'' ''/project/.vercel/output/functions'' exAssets
           exTableNoFunctions None,
         CliSuccess (generatedMessage ''out/_worker.js/index.js'')],
        Value ())"
proof -
  let ?E = "exTree (Some exConfig) exFiles None"
  have dirs: "functionsDirOf ?E = ''/project/.vercel/output/functions''"
    "workerJsDirOf ?E ''out'' = ''out/_worker.js''"
    "nopDistDirOf ?E ''out'' = ''out/_worker.js/__next-on-pages-dist__''"
    "templatesDirOf ?E = ''/pkg/dist/templates''"
    by (simp_all add: exTree_def stagedCollaborators_def functionsDirOf_def workerJsDirOf_def
          nopDistDirOf_def templatesDirOf_def pathJoin_def pathResolve_def normalizePath_def)
  have cfg: "getVercelConfig ?E = Inr exResolved"
    by (simp add: exTree_def stagedCollaborators_def exResolve)
  have assets: "getVercelStaticAssets ?E = Inr exAssets"
    by (simp add: exTree_def stagedCollaborators_def exCollect)
  have pod: "processOutputDir ?E ''out'' exAssets = Inr ()"
    by (simp add: exTree_def stagedCollaborators_def)
  have vd: "validateDir ?E (functionsDirOf ?E) = Inr False"
    by (simp add: exTree_def stagedCollaborators_def)
  have out: "processVercelOutput ?E exResolved exAssets None None = Inr exTableNoFunctions"
    by (simp add: exTree_def stagedCollaborators_def routingInputsOf_def exTableNoFunctions_def
          exAssets_def)
  have worker: "buildWorkerFile ?E t od ''out/_worker.js'' nd td ce mi
                  = Inr ''out/_worker.js/index.js''" for t od nd td ce mi
    by (simp add: exTree_def stagedCollaborators_def pathJoin_def normalizePath_def)
  have rest: "buildMetadataFiles ?E od a = Inr ()" "printBuildSummary ?E a t pf = Inr ()"
    "writeBuildInfo ?E wd fd a t pf = Inr ()" for od a t pf wd fd
    by (simp_all add: exTree_def stagedCollaborators_def)
  note full = missing_functions_directory[OF cfg assets pod vd, of exOpts, THEN conjunct2,
      rule_format, of exTableNoFunctions "''out/_worker.js/index.js''"]
  have "prepareAndBuildWorker ?E ''out'' exOpts =
          ([GetVercelConfig, GetVercelStaticAssets, ProcessOutputDir ''out'' exAssets,
            ValidateDir (functionsDirOf ?E), CliLog noFunctionsMessage,
            ProcessVercelOutput exResolved exAssets None None,
            BuildWorkerFile exTableNoFunctions ''out'' (workerJsDirOf ?E ''out'')
              (nopDistDirOf ?E ''out'') (templatesDirOf ?E) (customEntrypoint exOpts)
              (\<not> disableWorkerMinification exOpts),
            BuildMetadataFiles ''out'' exAssets,
            PrintBuildSummary exAssets exTableNoFunctions None,
            WriteBuildInfo (workerJsDirOf ?E ''out'') (functionsDirOf ?E) exAssets
              exTableNoFunctions None,
            CliSuccess (generatedMessage ''out/_worker.js/index.js'')],
           Value ())"
    by (rule full) (simp_all add: out worker rest dirs)
  then show ?thesis
    using vd by (simp add: dirs exOpts_def)
qed

text \<open>The whole run when the functions directory exists and every imported function succeeds.\<close>

lemma run_with_functions:
  assumes cfg: "getVercelConfig E = Inr cfg"
    and assets: "getVercelStaticAssets E = Inr assets"
    and pod: "processOutputDir E outputDir assets = Inr ()"
    and vd: "validateDir E (functionsDirOf E) = Inr True"
    and pvf: "processVercelFunctions E (functionsDirOf E) outputDir (workerJsDirOf E outputDir)
                (nopDistDirOf E outputDir) (disableChunksDedup opts) cfg = Inr pf"
    and pvo: "processVercelOutput E cfg assets (prerenderedOf (Some pf)) (edgeOf (Some pf))
                = Inr t"
    and bwf: "buildWorkerFile E t outputDir (workerJsDirOf E outputDir)
                (nopDistDirOf E outputDir) (templatesDirOf E) (customEntrypoint opts)
                (\<not> disableWorkerMinification opts) = Inr w"
    and bmf: "buildMetadataFiles E outputDir assets = Inr ()"
    and pbs: "printBuildSummary E assets t (Some pf) = Inr ()"
    and wbi: "writeBuildInfo E (workerJsDirOf E outputDir) (functionsDirOf E) assets t (Some pf)
                = Inr ()"
  shows "prepareAndBuildWorker E outputDir opts =
     ([GetVercelConfig, GetVercelStaticAssets, ProcessOutputDir outputDir assets,
       ValidateDir (functionsDirOf E),
       ProcessVercelFunctions (functionsDirOf E) outputDir (workerJsDirOf E outputDir)
         (nopDistDirOf E outputDir) (disableChunksDedup opts) cfg,
       ProcessVercelOutput cfg assets (prerenderedOf (Some pf)) (edgeOf (Some pf)),
       BuildWorkerFile t outputDir (workerJsDirOf E outputDir) (nopDistDirOf E outputDir)
         (templatesDirOf E) (customEntrypoint opts) (\<not> disableWorkerMinification opts),
       BuildMetadataFiles outputDir assets,
       PrintBuildSummary assets t (Some pf),
       WriteBuildInfo (workerJsDirOf E outputDir) (functionsDirOf E) assets t (Some pf),
       CliSuccess (generatedMessage w)],
      Value ())"
  using assms
  by (simp add: prepareAndBuildWorker_def resolveConfig_Inr collectFunctions_def Let_def)

end
